theory Spec2Isabelle
  imports Main "HOL-Library.Sublist"
begin

section \<open>Equipment lending portal: ledger and borrow-request lifecycle\<close>

text \<open>
  The backend keeps three MongoDB collections (Equipment, Request, User) and serves
  them through Express controllers. Every controller is modelled as a function from
  the database and the request's parameters to the database afterwards and the HTTP
  response: writes that happened before a failure stay in the returned database, as
  they do in the store. Quantities are JavaScript numbers holding integers, modelled
  as \<open>int\<close>; dates are instants in milliseconds, modelled as \<open>int\<close>; ObjectIds are
  \<open>nat\<close>; the clock (\<open>new Date()\<close>) and the id of an inserted document are parameters.
\<close>

subsection \<open>Documents\<close>

type_synonym oid = nat
type_synonym time = int

text \<open>Equipment schema (models/Equipment.js).\<close>

record equipment =
  name :: string
  category :: string
  description :: string
  condition :: string
  quantity :: int
  available :: int
  location :: string

text \<open>Request schema (models/Request.js); fields with \<open>default: null\<close> are options.\<close>

datatype status = Pending | Approved | Rejected | Returned

fun statusName :: "status \<Rightarrow> string" where
  "statusName Pending = ''pending''"
| "statusName Approved = ''approved''"
| "statusName Rejected = ''rejected''"
| "statusName Returned = ''returned''"

record request =
  rid :: oid
  studentId :: oid
  studentName :: string
  studentEmail :: string
  equipmentId :: oid
  equipmentName :: string
  reqQuantity :: int
  borrowFromDate :: time
  borrowToDate :: time
  requestedDate :: time
  reqNotes :: string
  status :: status
  approvedBy :: "oid option"
  approvedByName :: "string option"
  approvalDate :: "time option"
  approvalNotes :: "string option"
  rejectionReason :: "string option"
  actualReturnDate :: "time option"
  returnedCondition :: "string option"
  returnNotes :: "string option"

text \<open>User schema (models/User.js); only the name is read by the code modelled here.\<close>

record user =
  userName :: string
  role :: string

record db =
  equipments :: "oid \<rightharpoonup> equipment"
  requests :: "request list"
  users :: "oid \<rightharpoonup> user"

text \<open>An error response is the HTTP status with the \<open>message\<close> of the JSON body.\<close>

type_synonym response = "nat \<times> string"

subsection \<open>Collection access\<close>

text \<open>\<open>Request.findById\<close> and the write of \<open>document.save()\<close> on the Request collection.\<close>

definition findById :: "request list \<Rightarrow> oid \<Rightarrow> request option" where
  "findById rs i = find (\<lambda>r. rid r = i) rs"

definition save :: "request \<Rightarrow> request list \<Rightarrow> request list" where
  "save r rs = map (\<lambda>x. if rid x = rid r then r else x) rs"

subsection \<open>Equipment schema validators and methods (models/Equipment.js)\<close>

text \<open>
  The validators the schema declares on \<open>quantity\<close> (\<open>min\<close>) and on \<open>available\<close> (\<open>min\<close>,
  then the custom validator against \<open>this.quantity\<close>), with their messages. A path
  reports its first failing validator; a document's ValidationError collects the
  paths. They run on \<open>Equipment.create\<close> and on \<open>save()\<close>.
\<close>

definition quantityError :: "equipment \<Rightarrow> string option" where
  "quantityError this =
     (if quantity this < 1 then Some ''Quantity must be at least 1'' else None)"

definition availableError :: "equipment \<Rightarrow> string option" where
  "availableError this =
     (if available this < 0 then Some ''Available quantity cannot be negative''
      else if \<not> available this \<le> quantity this
        then Some ''Available quantity cannot exceed total quantity''
      else None)"

definition equipmentSchemaErrors :: "equipment \<Rightarrow> string list" where
  "equipmentSchemaErrors this =
     (case quantityError this of None \<Rightarrow> [] | Some m \<Rightarrow> [m]) @
     (case availableError this of None \<Rightarrow> [] | Some m \<Rightarrow> [m])"

text \<open>
  \<open>decreaseAvailable\<close> and \<open>increaseAvailable\<close> throw an \<open>Error\<close> with the given
  message, or change \<open>this.available\<close> and call \<open>this.save()\<close>, which validates the
  modified path \<open>available\<close> and rejects with the validator's message; \<open>Inl\<close> is the
  throw or the rejection, \<open>Inr\<close> the document that is written.
\<close>

definition decreaseAvailable :: "equipment \<Rightarrow> int \<Rightarrow> string + equipment" where
  "decreaseAvailable this count =
     (if available this < count then Inl ''Not enough available quantity''
      else
        let this' = this\<lparr>available := available this - count\<rparr>
        in (case availableError this' of Some m \<Rightarrow> Inl m | None \<Rightarrow> Inr this'))"

definition increaseAvailable :: "equipment \<Rightarrow> int \<Rightarrow> string + equipment" where
  "increaseAvailable this count =
     (if available this + count > quantity this then Inl ''Cannot return more than total quantity''
      else
        let this' = this\<lparr>available := available this + count\<rparr>
        in (case availableError this' of Some m \<Rightarrow> Inl m | None \<Rightarrow> Inr this'))"

subsection \<open>Request methods (models/Request.js)\<close>

text \<open>
  Each method assigns the fields and calls \<open>this.save()\<close>, which validates the
  modified paths against the schema (\<open>maxlength\<close>, \<open>enum\<close>) and rejects with a
  ValidationError carrying the schema's message (the enum of \<open>returnedCondition\<close> has
  none of its own); \<open>Inl\<close> is that rejection, \<open>Inr\<close> the document that is written. The
  controllers pass the body's values after their defaults (\<open>''\<close>, \<open>'Good'\<close>).
\<close>

definition request_approve :: "request \<Rightarrow> oid \<Rightarrow> string \<Rightarrow> string \<Rightarrow> time \<Rightarrow> string + request" where
  "request_approve this adminId adminName noteText now =
     (if length noteText > 300 then Inl ''Approval notes cannot exceed 300 characters''
      else Inr (this\<lparr>status := Approved, approvedBy := Some adminId,
                     approvedByName := Some adminName, approvalDate := Some now,
                     approvalNotes := Some noteText\<rparr>))"

definition request_reject :: "request \<Rightarrow> string \<Rightarrow> string + request" where
  "request_reject this reason =
     (if length reason > 300 then Inl ''Rejection reason cannot exceed 300 characters''
      else Inr (this\<lparr>status := Rejected, rejectionReason := Some reason\<rparr>))"

definition conditionEnum :: "string list" where
  "conditionEnum = [''Excellent'', ''Good'', ''Fair'', ''Poor'']"

definition request_markReturned :: "request \<Rightarrow> string \<Rightarrow> string \<Rightarrow> time \<Rightarrow> string + request" where
  "request_markReturned this cond noteText now =
     (if cond \<notin> set conditionEnum then Inl ''returnedCondition is not a valid enum value''
      else if length noteText > 300 then Inl ''Return notes cannot exceed 300 characters''
      else Inr (this\<lparr>status := Returned, actualReturnDate := Some now,
                     returnedCondition := Some cond, returnNotes := Some noteText\<rparr>))"

subsection \<open>Lifecycle controllers (controllers/requestController.js)\<close>

text \<open>\<open>admin?.name || 'Admin'\<close>: a missing user or an empty name gives the literal.\<close>

definition adminNameOf :: "user option \<Rightarrow> string" where
  "adminNameOf admin =
     (case admin of None \<Rightarrow> ''Admin''
      | Some a \<Rightarrow> if userName a = [] then ''Admin'' else userName a)"

definition approveRequest :: "db \<Rightarrow> oid \<Rightarrow> oid \<Rightarrow> string \<Rightarrow> time \<Rightarrow> db \<times> (response + request)" where
  "approveRequest s requestId adminId notesIn now =
     (case findById (requests s) requestId of
        None \<Rightarrow> (s, Inl (404, ''Request not found''))
      | Some req \<Rightarrow>
          if status req \<noteq> Pending
          then (s, Inl (400, ''Cannot approve a '' @ statusName (status req) @ '' request''))
          else
            let adminName = adminNameOf (users s adminId) in
            (case equipments s (equipmentId req) of
               None \<Rightarrow> (s, Inl (400, ''Requested quantity no longer available''))
             | Some eq \<Rightarrow>
                 if available eq < reqQuantity req
                 then (s, Inl (400, ''Requested quantity no longer available''))
                 else
                   let s1 = s\<lparr>equipments := (equipments s)(equipmentId req \<mapsto>
                                 eq\<lparr>available := available eq + (- reqQuantity req)\<rparr>)\<rparr>
                   in (case request_approve req adminId adminName notesIn now of
                         Inl err \<Rightarrow> (s1, Inl (500, ''Server error approving request''))
                       | Inr req' \<Rightarrow> (s1\<lparr>requests := save req' (requests s1)\<rparr>, Inr req'))))"

definition rejectRequest :: "db \<Rightarrow> oid \<Rightarrow> string \<Rightarrow> db \<times> (response + request)" where
  "rejectRequest s requestId reason =
     (case findById (requests s) requestId of
        None \<Rightarrow> (s, Inl (404, ''Request not found''))
      | Some req \<Rightarrow>
          if status req \<noteq> Pending
          then (s, Inl (400, ''Cannot reject a '' @ statusName (status req) @ '' request''))
          else
            (case request_reject req reason of
               Inl err \<Rightarrow> (s, Inl (500, ''Server error rejecting request''))
             | Inr req' \<Rightarrow> (s\<lparr>requests := save req' (requests s)\<rparr>, Inr req')))"

definition markReturned :: "db \<Rightarrow> oid \<Rightarrow> string \<Rightarrow> string \<Rightarrow> time \<Rightarrow> db \<times> (response + request)" where
  "markReturned s requestId cond notesIn now =
     (case findById (requests s) requestId of
        None \<Rightarrow> (s, Inl (404, ''Request not found''))
      | Some req \<Rightarrow>
          if status req \<noteq> Approved
          then (s, Inl (400, ''Only approved requests can be marked as returned''))
          else
            let s1 = (case equipments s (equipmentId req) of
                        None \<Rightarrow> s
                      | Some eq \<Rightarrow> s\<lparr>equipments := (equipments s)(equipmentId req \<mapsto>
                                      eq\<lparr>available := available eq + reqQuantity req\<rparr>)\<rparr>)
            in (case request_markReturned req cond notesIn now of
                  Inl err \<Rightarrow> (s1, Inl (500, ''Server error marking equipment as returned''))
                | Inr req' \<Rightarrow> (s1\<lparr>requests := save req' (requests s1)\<rparr>, Inr req')))"

subsection \<open>Number to text\<close>

text \<open>The decimal text a template literal gives for an integer.\<close>

fun showNat :: "nat \<Rightarrow> string" where
  "showNat n = (if n < 10 then [''0123456789'' ! n]
                else showNat (n div 10) @ [''0123456789'' ! (n mod 10)])"

declare showNat.simps [simp del]

definition showInt :: "int \<Rightarrow> string" where
  "showInt i = (if i < 0 then CHR ''-'' # showNat (nat (- i)) else showNat (nat i))"

subsection \<open>Creating a request (controllers/requestController.js, \<open>createRequest\<close>)\<close>

text \<open>
  The JSON body. A field that is absent (or an empty date string) is \<open>None\<close>; the
  quantity is absent or another falsy non-number (\<open>NoNumber\<close>), a value that
  \<open>Number.isInteger\<close> refuses (\<open>NonInteger\<close>), or an integer. Date strings are taken to
  parse to an instant.
\<close>

datatype jsnumber = NoNumber | NonInteger | IntNum int

record requestBody =
  b_studentId :: "oid option"
  b_studentName :: "string option"
  b_studentEmail :: "string option"
  b_equipmentId :: "oid option"
  b_equipmentName :: "string option"
  b_quantity :: jsnumber
  b_borrowFromDate :: "time option"
  b_borrowToDate :: "time option"
  b_notes :: "string option"

definition falsyStr :: "string option \<Rightarrow> bool" where
  "falsyStr v = (case v of None \<Rightarrow> True | Some x \<Rightarrow> x = [])"

definition falsyNum :: "jsnumber \<Rightarrow> bool" where
  "falsyNum v = (case v of NoNumber \<Rightarrow> True | NonInteger \<Rightarrow> False | IntNum i \<Rightarrow> i = 0)"

text \<open>Step 1, first guard: every required field is truthy.\<close>

definition requiredFields :: "requestBody \<Rightarrow> (oid \<times> oid \<times> time \<times> time \<times> string) option" where
  "requiredFields body =
     (case b_studentId body of None \<Rightarrow> None | Some sid \<Rightarrow>
     (case b_equipmentId body of None \<Rightarrow> None | Some eid \<Rightarrow>
     (if falsyNum (b_quantity body) then None else
     (case b_borrowFromDate body of None \<Rightarrow> None | Some fromDate \<Rightarrow>
     (case b_borrowToDate body of None \<Rightarrow> None | Some toDate \<Rightarrow>
     (case b_notes body of None \<Rightarrow> None | Some nt \<Rightarrow>
     (if nt = [] then None else Some (sid, eid, fromDate, toDate, nt))))))))"

text \<open>Step 1, second guard: \<open>!Number.isInteger(quantity) || quantity < 1\<close>.\<close>

definition positiveInteger :: "jsnumber \<Rightarrow> int option" where
  "positiveInteger v = (case v of IntNum i \<Rightarrow> if i < 1 then None else Some i | _ \<Rightarrow> None)"

text \<open>Step 1, dates; \<open>today\<close> is the clock set back to local midnight.\<close>

definition checkDates :: "time \<Rightarrow> time \<Rightarrow> time \<Rightarrow> response option" where
  "checkDates fromDate toDate today =
     (if fromDate < today then Some (400, ''Borrow date cannot be in the past'')
      else if toDate \<le> fromDate then Some (400, ''Return date must be after borrow date'')
      else None)"

text \<open>Step 2, after the equipment is found: the immediate availability.\<close>

definition checkAvailable :: "equipment \<Rightarrow> int \<Rightarrow> response option" where
  "checkAvailable eq q =
     (if available eq \<le> 0 then Some (400, ''Equipment is not available for borrowing'')
      else if q > available eq
        then Some (400, ''Only '' @ showInt (available eq) @ '' units available for borrowing'')
      else None)"

text \<open>Step 3: the query for overlapping requests, the \<open>reduce\<close> and the capacity guard.\<close>

definition overlappingRequests :: "request list \<Rightarrow> oid \<Rightarrow> time \<Rightarrow> time \<Rightarrow> request list" where
  "overlappingRequests rs eid fromDate toDate =
     filter (\<lambda>r. equipmentId r = eid \<and> status r \<in> set [Approved, Pending]
                 \<and> (borrowFromDate r \<le> toDate \<and> borrowToDate r \<ge> fromDate)) rs"

definition totalRequestedQuantity :: "request list \<Rightarrow> int" where
  "totalRequestedQuantity rs = foldl (\<lambda>total r. total + reqQuantity r) 0 rs"

definition checkOverlap :: "request list \<Rightarrow> oid \<Rightarrow> equipment \<Rightarrow> time \<Rightarrow> time \<Rightarrow> int \<Rightarrow> response option" where
  "checkOverlap rs eid eq fromDate toDate q =
     (let total = totalRequestedQuantity (overlappingRequests rs eid fromDate toDate) in
      if total + q > quantity eq
        then Some (400, ''Only '' @ showInt (quantity eq - total) @ '' units available for these dates'')
      else None)"

text \<open>
  Step 4: \<open>Request.create\<close> validates the new document against the schema
  (models/Request.js) and inserts it; the messages of the failed validators are the
  ValidationError.
\<close>

definition borrowToDate_validator :: "time \<Rightarrow> time \<Rightarrow> bool" where
  "borrowToDate_validator v this_borrowFromDate = (v > this_borrowFromDate)"

definition requestSchemaErrors ::
    "string option \<Rightarrow> string option \<Rightarrow> string option \<Rightarrow> int \<Rightarrow> time \<Rightarrow> time \<Rightarrow> string \<Rightarrow> string list" where
  "requestSchemaErrors sName sEmail eName q fromDate toDate nt =
     (if falsyStr sName then [''Please provide student name''] else []) @
     (if falsyStr sEmail then [''Please provide student email''] else []) @
     (if falsyStr eName then [''Please provide equipment name''] else []) @
     (if q < 1 then [''Quantity must be at least 1''] else []) @
     (if \<not> borrowToDate_validator toDate fromDate then [''Return date must be after borrow date''] else []) @
     (if nt = [] then [''Please provide purpose for borrowing''] else []) @
     (if length nt > 500 then [''Notes cannot exceed 500 characters''] else [])"

definition newRequest ::
    "oid \<Rightarrow> oid \<Rightarrow> string \<Rightarrow> string \<Rightarrow> oid \<Rightarrow> string \<Rightarrow> int \<Rightarrow> time \<Rightarrow> time \<Rightarrow> string \<Rightarrow> time \<Rightarrow> request" where
  "newRequest newId sid sName sEmail eid eName q fromDate toDate nt now =
     \<lparr>rid = newId, studentId = sid, studentName = sName, studentEmail = sEmail,
      equipmentId = eid, equipmentName = eName, reqQuantity = q,
      borrowFromDate = fromDate, borrowToDate = toDate, requestedDate = now,
      reqNotes = nt, status = Pending, approvedBy = None, approvedByName = None,
      approvalDate = None, approvalNotes = None, rejectionReason = None,
      actualReturnDate = None, returnedCondition = None, returnNotes = None\<rparr>"

definition createRequest :: "db \<Rightarrow> requestBody \<Rightarrow> time \<Rightarrow> time \<Rightarrow> oid \<Rightarrow> db \<times> (response + request)" where
  "createRequest s body today now newId =
     (case requiredFields body of
        None \<Rightarrow> (s, Inl (400, ''Please provide all required fields''))
      | Some (sid, eid, fromDate, toDate, nt) \<Rightarrow>
     (case positiveInteger (b_quantity body) of
        None \<Rightarrow> (s, Inl (400, ''Quantity must be a positive whole number''))
      | Some q \<Rightarrow>
     (case checkDates fromDate toDate today of
        Some err \<Rightarrow> (s, Inl err)
      | None \<Rightarrow>
     (case equipments s eid of
        None \<Rightarrow> (s, Inl (404, ''Equipment not found''))
      | Some eq \<Rightarrow>
     (case checkAvailable eq q of
        Some err \<Rightarrow> (s, Inl err)
      | None \<Rightarrow>
     (case checkOverlap (requests s) eid eq fromDate toDate q of
        Some err \<Rightarrow> (s, Inl err)
      | None \<Rightarrow>
     (if requestSchemaErrors (b_studentName body) (b_studentEmail body) (b_equipmentName body)
           q fromDate toDate nt \<noteq> []
      then (s, Inl (400, ''Validation error''))
      else
        let r = newRequest newId sid (the (b_studentName body)) (the (b_studentEmail body))
                  eid (the (b_equipmentName body)) q fromDate toDate nt now
        in (s\<lparr>requests := requests s @ [r]\<rparr>, Inr r))))))))"

subsection \<open>Updating equipment (controllers/equipmentController.js, \<open>updateEquipment\<close>)\<close>

text \<open>
  The body of the PUT; a text field is written only when truthy
  (\<open>...(name && { name })\<close>), a number when it is not \<open>undefined\<close>; the numbers of the
  body are JSON numbers. The update runs with \<open>runValidators: false\<close>; the schema's
  \<open>trim\<close> on \<open>name\<close> is a setter and still applies to the written value.
\<close>

record equipmentBody =
  b_name :: "string option"
  b_category :: "string option"
  b_description :: "string option"
  b_condition :: "string option"
  b_newQuantity :: "int option"
  b_newAvailable :: "int option"
  b_location :: "string option"

text \<open>
  \<open>String.prototype.trim\<close> on the characters of \<open>string\<close>: space, tab, line feed,
  vertical tab, form feed and carriage return are removed at both ends.
\<close>

definition isSpace :: "char \<Rightarrow> bool" where
  "isSpace c = (c \<in> set [CHR '' '', CHR 0x09, CHR 0x0A, CHR 0x0B, CHR 0x0C, CHR 0x0D])"

definition trim :: "string \<Rightarrow> string" where
  "trim x = rev (dropWhile isSpace (rev (dropWhile isSpace x)))"

definition orKeep :: "string option \<Rightarrow> string \<Rightarrow> string" where
  "orKeep v old = (if falsyStr v then old else the v)"

definition updateEquipment :: "db \<Rightarrow> oid \<Rightarrow> equipmentBody \<Rightarrow> db \<times> (response + equipment)" where
  "updateEquipment s i body =
     (case equipments s i of
        None \<Rightarrow> (s, Inl (404, ''Equipment not found''))
      | Some eq \<Rightarrow>
          let newAvailable = (case b_newAvailable body of Some a \<Rightarrow> a | None \<Rightarrow> available eq);
              newQuantity = (case b_newQuantity body of Some q \<Rightarrow> q | None \<Rightarrow> quantity eq)
          in if newAvailable > newQuantity
             then (s, Inl (400, ''Available quantity cannot exceed total quantity''))
             else
               let eq' = eq\<lparr>name := (if falsyStr (b_name body) then name eq else trim (the (b_name body))),
                            category := orKeep (b_category body) (category eq),
                            description := orKeep (b_description body) (description eq),
                            condition := orKeep (b_condition body) (condition eq),
                            quantity := (case b_newQuantity body of Some q \<Rightarrow> q | None \<Rightarrow> quantity eq),
                            available := (case b_newAvailable body of Some a \<Rightarrow> a | None \<Rightarrow> available eq),
                            location := orKeep (b_location body) (location eq)\<rparr>
               in (s\<lparr>equipments := (equipments s)(i \<mapsto> eq')\<rparr>, Inr eq'))"

subsection \<open>The ledger invariant\<close>

definition ledgerInvariant :: "equipment \<Rightarrow> bool" where
  "ledgerInvariant e = (0 \<le> available e \<and> available e \<le> quantity e)"

subsection \<open>Committed quantity, in the specification's words\<close>

text \<open>
  The specification's overlap accounting: the sum of \<open>quantity\<close> over the requests on
  the equipment whose status is pending or approved and whose range \<open>[a, b]\<close> meets the
  candidate range \<open>[from, to]\<close>, that is \<open>a \<le> to\<close> and \<open>b \<ge> from\<close>. It is compared below
  with what the controller computes.
\<close>

definition committed :: "request list \<Rightarrow> oid \<Rightarrow> time \<Rightarrow> time \<Rightarrow> int" where
  "committed rs eid fromDate toDate =
     (\<Sum>r\<leftarrow>rs. if equipmentId r = eid \<and> (status r = Pending \<or> status r = Approved)
                   \<and> borrowFromDate r \<le> toDate \<and> borrowToDate r \<ge> fromDate
                then reqQuantity r else 0)"

subsection \<open>Scenario data\<close>

text \<open>
  The first end-to-end scenario: one equipment item with five units, all available,
  and one pending request A for three of them over the instants 110 to 115.
\<close>

definition scenarioEquipment :: equipment where
  "scenarioEquipment = \<lparr>name = ''Projector'', category = ''Computing'',
      description = ''HD projector'', condition = ''Good'', quantity = 5, available = 5,
      location = ''Room 1''\<rparr>"

definition scenarioRequestA :: request where
  "scenarioRequestA =
     newRequest 10 7 ''Asha'' ''asha@school.edu'' 20 ''Projector'' 3 110 115 ''Science fair'' 100"

definition scenarioDb :: db where
  "scenarioDb = \<lparr>equipments = [20 \<mapsto> scenarioEquipment], requests = [scenarioRequestA],
      users = Map.empty\<rparr>"

text \<open>
  Request A once approved; a database whose only request refers to equipment that is
  gone; the scenario with an administrator on file; and two PUT bodies that change
  only \<open>available\<close>.
\<close>

definition scenarioApprovedA :: request where
  "scenarioApprovedA = scenarioRequestA\<lparr>status := Approved, approvedBy := Some 9,
      approvedByName := Some ''Admin'', approvalDate := Some 1, approvalNotes := Some []\<rparr>"

definition orphanDb :: db where
  "orphanDb = \<lparr>equipments = Map.empty, requests = [scenarioApprovedA], users = Map.empty\<rparr>"

definition staffedDb :: db where
  "staffedDb = scenarioDb\<lparr>users := [9 \<mapsto> \<lparr>userName = ''Meera'', role = ''admin''\<rparr>]\<rparr>"

definition restockBody :: equipmentBody where
  "restockBody = \<lparr>b_name = None, b_category = None, b_description = None, b_condition = None,
      b_newQuantity = None, b_newAvailable = Some 5, b_location = None\<rparr>"

definition negativeBody :: equipmentBody where
  "negativeBody = \<lparr>b_name = None, b_category = None, b_description = None, b_condition = None,
      b_newQuantity = None, b_newAvailable = Some (- 1), b_location = None\<rparr>"

text \<open>A text of 301 characters, one more than the Request schema's \<open>maxlength\<close> of 300.\<close>

definition longText :: string where
  "longText = replicate 301 (CHR ''x'')"

text \<open>Request B of the scenario: three units over the instants 112 to 120.\<close>

definition scenarioBodyB :: requestBody where
  "scenarioBodyB = \<lparr>b_studentId = Some 8, b_studentName = Some ''Ben'',
      b_studentEmail = Some ''ben@school.edu'', b_equipmentId = Some 20,
      b_equipmentName = Some ''Projector'', b_quantity = IntNum 3,
      b_borrowFromDate = Some 112, b_borrowToDate = Some 120, b_notes = Some ''Robotics club''\<rparr>"

section \<open>Properties\<close>

subsection \<open>The Request collection under \<open>save\<close>\<close>

lemma findById_rid: "findById rs i = Some r \<Longrightarrow> rid r = i"
  unfolding findById_def by (induction rs) (auto split: if_splits)

lemma findById_save:
  "findById rs i = Some r \<Longrightarrow> rid r' = i \<Longrightarrow> findById (save r' rs) i = Some r'"
  unfolding findById_def save_def by (induction rs) (auto split: if_splits)

lemma findById_save_other:
  "rid r' \<noteq> i \<Longrightarrow> findById (save r' rs) i = findById rs i"
  unfolding findById_def save_def by (induction rs) auto

lemma scenario_findById: "findById (requests scenarioDb) 10 = Some scenarioRequestA"
  by (simp add: scenarioDb_def findById_def scenarioRequestA_def newRequest_def)

lemma scenario_pending: "status scenarioRequestA = Pending"
  by (simp add: scenarioRequestA_def newRequest_def)

subsection \<open>Reject\<close>

lemma rejectRequest_frame:
  "equipments (fst (rejectRequest s requestId reason)) = equipments s"
  unfolding rejectRequest_def request_reject_def
  by (simp split: option.splits)

text \<open>
  C8, as the code has it. Rejecting a pending request never touches the Equipment
  collection, so \<open>available\<close> and \<open>quantity\<close> of every item are what they were. With a
  reason of at most 300 characters the request is written back with status \<open>rejected\<close>
  and the reason recorded, and that document is the response; with a longer reason the
  schema refuses the save, the answer is 500 and nothing is changed.
\<close>

theorem reject_pending:
  assumes "findById (requests s) requestId = Some r" and "status r = Pending"
  shows "equipments (fst (rejectRequest s requestId reason)) = equipments s
       \<and> (length reason \<le> 300 \<longrightarrow>
            (let r' = r\<lparr>status := Rejected, rejectionReason := Some reason\<rparr> in
             rejectRequest s requestId reason = (s\<lparr>requests := save r' (requests s)\<rparr>, Inr r')
             \<and> findById (requests (fst (rejectRequest s requestId reason))) requestId = Some r'))
       \<and> (300 < length reason \<longrightarrow>
            rejectRequest s requestId reason = (s, Inl (500, ''Server error rejecting request'')))"
proof -
  have rid: "rid r = requestId" using assms(1) by (rule findById_rid)
  have frame: "equipments (fst (rejectRequest s requestId reason)) = equipments s"
    by (rule rejectRequest_frame)
  have ok: "length reason \<le> 300 \<Longrightarrow>
      rejectRequest s requestId reason =
        (s\<lparr>requests := save (r\<lparr>status := Rejected, rejectionReason := Some reason\<rparr>) (requests s)\<rparr>,
         Inr (r\<lparr>status := Rejected, rejectionReason := Some reason\<rparr>))"
    using assms unfolding rejectRequest_def request_reject_def by simp
  have found: "findById (save (r\<lparr>status := Rejected, rejectionReason := Some reason\<rparr>) (requests s)) requestId
        = Some (r\<lparr>status := Rejected, rejectionReason := Some reason\<rparr>)"
    using assms(1) rid by (intro findById_save) simp_all
  have long: "300 < length reason \<Longrightarrow>
      rejectRequest s requestId reason = (s, Inl (500, ''Server error rejecting request''))"
    using assms unfolding rejectRequest_def request_reject_def by simp
  show ?thesis using frame ok found long by (simp add: Let_def)
qed

text \<open>
  The claim without the bound fails: a reason of 301 characters on the pending request A
  answers 500, and A is still pending with no reason recorded.
\<close>

theorem reject_long_reason_counterexample:
  "findById (requests scenarioDb) 10 = Some scenarioRequestA
   \<and> status scenarioRequestA = Pending
   \<and> rejectRequest scenarioDb 10 longText = (scenarioDb, Inl (500, ''Server error rejecting request''))
   \<and> map_option status (findById (requests (fst (rejectRequest scenarioDb 10 longText))) 10) = Some Pending
   \<and> map_option rejectionReason (findById (requests (fst (rejectRequest scenarioDb 10 longText))) 10) = Some None"
  by (simp add: rejectRequest_def request_reject_def longText_def scenario_findById scenario_pending)
     (simp add: scenarioRequestA_def newRequest_def)

theorem reject_pending_witness:
  "rejectRequest scenarioDb 10 ''Out of order'' =
     (scenarioDb\<lparr>requests := [scenarioRequestA\<lparr>status := Rejected, rejectionReason := Some ''Out of order''\<rparr>]\<rparr>,
      Inr (scenarioRequestA\<lparr>status := Rejected, rejectionReason := Some ''Out of order''\<rparr>))
   \<and> equipments (fst (rejectRequest scenarioDb 10 ''Out of order'')) 20 = Some scenarioEquipment
   \<and> equipments (fst (rejectRequest scenarioDb 10 longText)) 20 = Some scenarioEquipment"
proof -
  have l: "length ''Out of order'' \<le> 300" by simp
  have l2: "300 < length longText" by (simp add: longText_def)
  have sv: "save (scenarioRequestA\<lparr>status := Rejected, rejectionReason := Some ''Out of order''\<rparr>) (requests scenarioDb)
     = [scenarioRequestA\<lparr>status := Rejected, rejectionReason := Some ''Out of order''\<rparr>]"
    by (simp add: save_def scenarioDb_def)
  from reject_pending [OF scenario_findById scenario_pending, of "''Out of order''"] l sv
  have one: "rejectRequest scenarioDb 10 ''Out of order'' =
     (scenarioDb\<lparr>requests := [scenarioRequestA\<lparr>status := Rejected, rejectionReason := Some ''Out of order''\<rparr>]\<rparr>,
      Inr (scenarioRequestA\<lparr>status := Rejected, rejectionReason := Some ''Out of order''\<rparr>))"
    by (simp add: Let_def)
  from reject_pending [OF scenario_findById scenario_pending, of longText] l2
  have two: "equipments (fst (rejectRequest scenarioDb 10 longText)) 20 = Some scenarioEquipment"
    by (simp add: scenarioDb_def)
  show ?thesis using one two by (simp add: scenarioDb_def)
qed

subsection \<open>Return\<close>



lemma orphan_findById: "findById (requests orphanDb) 10 = Some scenarioApprovedA"
  by (simp add: orphanDb_def findById_def scenarioApprovedA_def scenarioRequestA_def newRequest_def)



subsection \<open>Approve\<close>

text \<open>
  C10, as the code has it. Approving a pending request whose quantity is still
  available, with notes of at most 300 characters, succeeds whether or not the
  approver's id resolves to a user: \<open>approvedByName\<close> is the literal \<open>Admin\<close> when it
  does not, or when the user's name is empty, and the user's name otherwise.
\<close>

theorem approve_records_admin_name:
  assumes "findById (requests s) requestId = Some r" and "status r = Pending"
      and "equipments s (equipmentId r) = Some e" and "reqQuantity r \<le> available e"
  shows "length notesIn \<le> 300 \<longrightarrow>
           (\<exists>r'. snd (approveRequest s requestId adminId notesIn now) = Inr r'
              \<and> findById (requests (fst (approveRequest s requestId adminId notesIn now))) requestId = Some r'
              \<and> status r' = Approved
              \<and> approvedByName r' =
                  Some (case users s adminId of None \<Rightarrow> ''Admin''
                        | Some u \<Rightarrow> if userName u = [] then ''Admin'' else userName u))"
proof
  assume len: "length notesIn \<le> 300"
  let ?nm = "case users s adminId of None \<Rightarrow> ''Admin''
             | Some u \<Rightarrow> if userName u = [] then ''Admin'' else userName u"
  let ?r' = "r\<lparr>status := Approved, approvedBy := Some adminId, approvedByName := Some ?nm,
                approvalDate := Some now, approvalNotes := Some notesIn\<rparr>"
  have rid: "rid r = requestId" using assms(1) by (rule findById_rid)
  have nm: "adminNameOf (users s adminId) = ?nm"
    by (simp add: adminNameOf_def)
  have res: "approveRequest s requestId adminId notesIn now =
      (s\<lparr>equipments := (equipments s)(equipmentId r \<mapsto> e\<lparr>available := available e + (- reqQuantity r)\<rparr>),
         requests := save ?r' (requests s)\<rparr>, Inr ?r')"
    using assms len nm unfolding approveRequest_def request_approve_def by (simp add: Let_def)
  have found: "findById (save ?r' (requests s)) requestId = Some ?r'"
    using assms(1) rid by (intro findById_save) simp_all
  show "\<exists>r'. snd (approveRequest s requestId adminId notesIn now) = Inr r'
              \<and> findById (requests (fst (approveRequest s requestId adminId notesIn now))) requestId = Some r'
              \<and> status r' = Approved \<and> approvedByName r' = Some ?nm"
    using res found by simp
qed

text \<open>
  The claim without the bound fails: on the pending request A, three of five units
  being available, approval notes of 301 characters answer 500 and A is still pending
  with no approver recorded.
\<close>

theorem approve_long_notes_counterexample:
  "findById (requests scenarioDb) 10 = Some scenarioRequestA
   \<and> status scenarioRequestA = Pending
   \<and> equipments scenarioDb (equipmentId scenarioRequestA) = Some scenarioEquipment
   \<and> reqQuantity scenarioRequestA \<le> available scenarioEquipment
   \<and> users scenarioDb 9 = None
   \<and> snd (approveRequest scenarioDb 10 9 longText 120) = Inl (500, ''Server error approving request'')
   \<and> map_option status (findById (requests (fst (approveRequest scenarioDb 10 9 longText 120))) 10)
       = Some Pending
   \<and> map_option approvedByName (findById (requests (fst (approveRequest scenarioDb 10 9 longText 120))) 10)
       = Some None"
  by (simp add: approveRequest_def request_approve_def adminNameOf_def findById_def longText_def
        scenarioDb_def scenarioRequestA_def newRequest_def scenarioEquipment_def Let_def)

theorem approve_records_admin_name_witness:
  "snd (approveRequest scenarioDb 10 9 ''ok'' 1) =
      Inr (scenarioRequestA\<lparr>status := Approved, approvedBy := Some 9, approvedByName := Some ''Admin'',
             approvalDate := Some 1, approvalNotes := Some ''ok''\<rparr>)
   \<and> (\<exists>r'. snd (approveRequest staffedDb 10 9 ''ok'' 1) = Inr r' \<and> approvedByName r' = Some ''Meera'')"
proof -
  have e: "equipments scenarioDb (equipmentId scenarioRequestA) = Some scenarioEquipment"
    by (simp add: scenarioDb_def scenarioRequestA_def newRequest_def)
  have q: "reqQuantity scenarioRequestA \<le> available scenarioEquipment"
    by (simp add: scenarioRequestA_def newRequest_def scenarioEquipment_def)
  have l: "length ''ok'' \<le> 300" by simp
  have f2: "findById (requests staffedDb) 10 = Some scenarioRequestA"
    using scenario_findById by (simp add: staffedDb_def)
  have e2: "equipments staffedDb (equipmentId scenarioRequestA) = Some scenarioEquipment"
    using e by (simp add: staffedDb_def)
  have first: "snd (approveRequest scenarioDb 10 9 ''ok'' 1) =
      Inr (scenarioRequestA\<lparr>status := Approved, approvedBy := Some 9, approvedByName := Some ''Admin'',
             approvalDate := Some 1, approvalNotes := Some ''ok''\<rparr>)"
    using approve_records_admin_name [OF scenario_findById scenario_pending e q, of "''ok''" 9 1] l
    by (simp add: approveRequest_def request_approve_def adminNameOf_def findById_def
          scenarioDb_def scenarioRequestA_def newRequest_def scenarioEquipment_def Let_def)
  have second: "\<exists>r'. snd (approveRequest staffedDb 10 9 ''ok'' 1) = Inr r' \<and> approvedByName r' = Some ''Meera''"
    using approve_records_admin_name [OF f2 scenario_pending e2 q, of "''ok''" 9 1] l
    by (auto simp add: staffedDb_def)
  show ?thesis using first second by simp
qed

subsection \<open>Status guards\<close>

text \<open>
  C3, as the code has it. For a request that is found: approve and reject from a status
  other than \<open>pending\<close> answer 400 with a message that names the current status and
  change nothing; \<open>markReturned\<close> from a status other than \<open>approved\<close> answers 400 with
  the fixed message \<open>Only approved requests can be marked as returned\<close> and changes
  nothing; and a successful approve or reject had a pending request, a successful
  \<open>markReturned\<close> an approved one.
\<close>

theorem status_guards:
  assumes "findById (requests s) requestId = Some r"
  shows "(status r \<noteq> Pending \<longrightarrow>
            approveRequest s requestId adminId notesIn now =
              (s, Inl (400, ''Cannot approve a '' @ statusName (status r) @ '' request''))
          \<and> rejectRequest s requestId reason =
              (s, Inl (400, ''Cannot reject a '' @ statusName (status r) @ '' request'')))
       \<and> (status r \<noteq> Approved \<longrightarrow>
            markReturned s requestId cond notesIn now =
              (s, Inl (400, ''Only approved requests can be marked as returned'')))
       \<and> sublist (statusName (status r)) (''Cannot approve a '' @ statusName (status r) @ '' request'')
       \<and> sublist (statusName (status r)) (''Cannot reject a '' @ statusName (status r) @ '' request'')
       \<and> ((\<exists>r'. snd (approveRequest s requestId adminId notesIn now) = Inr r') \<longrightarrow> status r = Pending)
       \<and> ((\<exists>r'. snd (rejectRequest s requestId reason) = Inr r') \<longrightarrow> status r = Pending)
       \<and> ((\<exists>r'. snd (markReturned s requestId cond notesIn now) = Inr r') \<longrightarrow> status r = Approved)"
proof -
  have a: "status r \<noteq> Pending \<Longrightarrow> approveRequest s requestId adminId notesIn now =
              (s, Inl (400, ''Cannot approve a '' @ statusName (status r) @ '' request''))"
    using assms by (simp add: approveRequest_def)
  have b: "status r \<noteq> Pending \<Longrightarrow> rejectRequest s requestId reason =
              (s, Inl (400, ''Cannot reject a '' @ statusName (status r) @ '' request''))"
    using assms by (simp add: rejectRequest_def)
  have c: "status r \<noteq> Approved \<Longrightarrow> markReturned s requestId cond notesIn now =
              (s, Inl (400, ''Only approved requests can be marked as returned''))"
    using assms by (simp add: markReturned_def)
  have n1: "sublist (statusName (status r)) (''Cannot approve a '' @ statusName (status r) @ '' request'')"
    unfolding sublist_def by blast
  have n2: "sublist (statusName (status r)) (''Cannot reject a '' @ statusName (status r) @ '' request'')"
    unfolding sublist_def by blast
  have a': "(\<exists>r'. snd (approveRequest s requestId adminId notesIn now) = Inr r') \<Longrightarrow> status r = Pending"
    using a by (cases "status r = Pending") auto
  have b': "(\<exists>r'. snd (rejectRequest s requestId reason) = Inr r') \<Longrightarrow> status r = Pending"
    using b by (cases "status r = Pending") auto
  have c': "(\<exists>r'. snd (markReturned s requestId cond notesIn now) = Inr r') \<Longrightarrow> status r = Approved"
    using c by (cases "status r = Approved") auto
  show ?thesis using a b c n1 n2 a' b' c' by blast
qed

text \<open>
  The message of \<open>markReturned\<close> does not name the current status: for the pending
  request A it does not contain \<open>pending\<close>.
\<close>

theorem markReturned_names_status_counterexample:
  "markReturned scenarioDb 10 ''Good'' [] 20 =
      (scenarioDb, Inl (400, ''Only approved requests can be marked as returned''))
   \<and> status scenarioRequestA = Pending
   \<and> \<not> sublist (statusName (status scenarioRequestA)) ''Only approved requests can be marked as returned''"
  by (simp add: markReturned_def scenario_findById scenario_pending sublist_Cons_right)

theorem status_guards_witness:
  "approveRequest orphanDb 10 9 [] 30 = (orphanDb, Inl (400, ''Cannot approve a approved request''))
   \<and> rejectRequest orphanDb 10 [] = (orphanDb, Inl (400, ''Cannot reject a approved request''))
   \<and> markReturned scenarioDb 10 ''Good'' [] 20 =
        (scenarioDb, Inl (400, ''Only approved requests can be marked as returned''))"
proof -
  have a: "status scenarioApprovedA = Approved" by (simp add: scenarioApprovedA_def)
  show ?thesis
    using status_guards [OF orphan_findById, of 9 "[]" 30 "[]" "''Good''"]
          status_guards [OF scenario_findById, of 9 "[]" 20 "[]" "''Good''"]
    by (simp add: a scenario_pending)
qed

subsection \<open>Approve, then return\<close>

text \<open>
  C4. When approving a request succeeds and marking it returned succeeds on the
  database the approval left, the Equipment collection is what it was before the
  approval: the approval took \<open>quantity\<close> units from \<open>available\<close> and the return gave
  the same number back.
\<close>

theorem approve_then_return:
  assumes "approveRequest s requestId adminId notes1 t1 = (s1, Inr r1)"
      and "markReturned s1 requestId cond notes2 t2 = (s2, Inr r2)"
  shows "equipments s2 = equipments s
       \<and> (\<exists>r e. findById (requests s) requestId = Some r \<and> equipments s (equipmentId r) = Some e
              \<and> (\<exists>e1. equipments s1 (equipmentId r) = Some e1 \<and> available e1 = available e - reqQuantity r)
              \<and> equipments s2 (equipmentId r) = Some e)"
proof -
  obtain r where r: "findById (requests s) requestId = Some r"
    using assms(1) by (cases "findById (requests s) requestId") (auto simp: approveRequest_def)
  have rid: "rid r = requestId" using r by (rule findById_rid)
  have p: "status r = Pending"
    using assms(1) r by (cases "status r = Pending") (auto simp: approveRequest_def)
  obtain e where e: "equipments s (equipmentId r) = Some e"
    using assms(1) r p by (cases "equipments s (equipmentId r)") (auto simp: approveRequest_def Let_def)
  have q: "\<not> available e < reqQuantity r"
    using assms(1) r p e by (cases "available e < reqQuantity r") (auto simp: approveRequest_def Let_def)
  let ?e1 = "e\<lparr>available := available e + (- reqQuantity r)\<rparr>"
  have s1: "s1 = s\<lparr>equipments := (equipments s)(equipmentId r \<mapsto> ?e1), requests := save r1 (requests s)\<rparr>"
    and r1: "r1 = r\<lparr>status := Approved, approvedBy := Some adminId,
                    approvedByName := Some (adminNameOf (users s adminId)),
                    approvalDate := Some t1, approvalNotes := Some notes1\<rparr>"
    using assms(1) r p e q
    by (auto simp: approveRequest_def request_approve_def Let_def split: if_splits)
  have f1: "findById (requests s1) requestId = Some r1"
    using r rid unfolding s1 by (simp add: findById_save r1)
  have st1: "status r1 = Approved" and eid1: "equipmentId r1 = equipmentId r"
    and q1: "reqQuantity r1 = reqQuantity r" by (simp_all add: r1)
  have e1: "equipments s1 (equipmentId r) = Some ?e1" by (simp add: s1)
  have s2: "equipments s2 = (equipments s1)(equipmentId r \<mapsto> ?e1\<lparr>available := available ?e1 + reqQuantity r\<rparr>)"
    using assms(2) f1 st1 eid1 q1 e1
    by (auto simp: markReturned_def request_markReturned_def Let_def split: if_splits)
  have restored: "?e1\<lparr>available := available ?e1 + reqQuantity r\<rparr> = e" by simp
  have eq: "equipments s2 = equipments s"
    unfolding s2 restored using e by (auto simp: s1)
  show ?thesis using eq r e e1 by auto
qed

theorem approve_then_return_witness:
  "equipments (fst (markReturned (fst (approveRequest scenarioDb 10 9 [] 120)) 10 ''Good'' [] 130))
      = equipments scenarioDb
   \<and> (\<exists>r1. snd (approveRequest scenarioDb 10 9 [] 120) = Inr r1)
   \<and> (\<exists>r2. snd (markReturned (fst (approveRequest scenarioDb 10 9 [] 120)) 10 ''Good'' [] 130) = Inr r2)"
proof -
  let ?a = "approveRequest scenarioDb 10 9 [] 120"
  let ?m = "markReturned (fst ?a) 10 ''Good'' [] 130"
  have a: "\<exists>r1. snd ?a = Inr r1"
    by (simp add: approveRequest_def request_approve_def findById_def
          scenarioDb_def scenarioRequestA_def newRequest_def scenarioEquipment_def Let_def)
  have m: "\<exists>r2. snd ?m = Inr r2"
    by (simp add: approveRequest_def request_approve_def findById_def save_def
          markReturned_def request_markReturned_def conditionEnum_def
          scenarioDb_def scenarioRequestA_def newRequest_def scenarioEquipment_def Let_def)
  obtain r1 where r1: "?a = (fst ?a, Inr r1)" using a by (metis prod.collapse)
  obtain r2 where r2: "?m = (fst ?m, Inr r2)" using m by (metis prod.collapse)
  from approve_then_return [OF r1 r2] a m show ?thesis by blast
qed

subsection \<open>The ledger invariant under return and update\<close>

text \<open>
  The guarded paths keep the invariant: whatever the two schema methods write satisfies
  it, and so does \<open>approveRequest\<close>, whose decrement comes after its availability check.
\<close>

lemma decreaseAvailable_invariant:
  "decreaseAvailable e n = Inr e' \<Longrightarrow> ledgerInvariant e'"
  by (auto simp: decreaseAvailable_def availableError_def ledgerInvariant_def Let_def
        split: if_splits option.splits)

lemma increaseAvailable_invariant:
  "increaseAvailable e n = Inr e' \<Longrightarrow> ledgerInvariant e'"
  by (auto simp: increaseAvailable_def availableError_def ledgerInvariant_def Let_def
        split: if_splits option.splits)

lemma approveRequest_invariant:
  assumes "findById (requests s) requestId = Some r" and "0 \<le> reqQuantity r"
      and "\<forall>e \<in> ran (equipments s). ledgerInvariant e"
  shows "\<forall>e \<in> ran (equipments (fst (approveRequest s requestId adminId notesIn now))). ledgerInvariant e"
proof -
  have upd: "\<forall>x \<in> ran (m(k \<mapsto> v)). ledgerInvariant x"
    if "\<forall>x \<in> ran m. ledgerInvariant x" "ledgerInvariant v" for m :: "oid \<rightharpoonup> equipment" and k v
    using that by (auto simp: ran_def split: if_splits)
  show ?thesis
  proof (cases "status r = Pending")
    case False
    then show ?thesis using assms by (simp add: approveRequest_def)
  next
    case True
    show ?thesis
    proof (cases "equipments s (equipmentId r)")
      case None
      then show ?thesis using assms True by (simp add: approveRequest_def Let_def)
    next
      case (Some e)
      then have inv: "ledgerInvariant e" using assms(3) by (auto simp: ran_def)
      show ?thesis
      proof (cases "available e < reqQuantity r")
        case True
        then show ?thesis using assms \<open>status r = Pending\<close> Some by (simp add: approveRequest_def Let_def)
      next
        case False
        have v: "ledgerInvariant (e\<lparr>available := available e + (- reqQuantity r)\<rparr>)"
          using inv False assms(2) by (simp add: ledgerInvariant_def)
        show ?thesis
          using assms(1) \<open>status r = Pending\<close> Some False upd [OF assms(3) v]
          by (simp add: approveRequest_def Let_def split: sum.splits)
      qed
    qed
  qed
qed

text \<open>
  C1. The invariant is not preserved by \<open>markReturned\<close>. From the scenario: approve A
  (available 2 of 5), set \<open>available\<close> back to 5 by an update, mark A returned: the
  item then has 8 available of 5. The schema method \<open>increaseAvailable\<close> refuses the same
  increment.
\<close>

theorem markReturned_exceeds_quantity:
  "ledgerInvariant scenarioEquipment
   \<and> map_option available (equipments (fst (approveRequest scenarioDb 10 9 [] 120)) 20) = Some 2
   \<and> map_option available
        (equipments (fst (updateEquipment (fst (approveRequest scenarioDb 10 9 [] 120)) 20 restockBody)) 20) = Some 5
   \<and> (\<exists>r. snd (markReturned (fst (updateEquipment (fst (approveRequest scenarioDb 10 9 [] 120)) 20 restockBody))
                10 ''Good'' [] 130) = Inr r \<and> status r = Returned)
   \<and> equipments (fst (markReturned (fst (updateEquipment (fst (approveRequest scenarioDb 10 9 [] 120)) 20 restockBody))
                10 ''Good'' [] 130)) 20 = Some (scenarioEquipment\<lparr>available := 8\<rparr>)
   \<and> \<not> ledgerInvariant (scenarioEquipment\<lparr>available := 8\<rparr>)
   \<and> increaseAvailable scenarioEquipment 3 = Inl ''Cannot return more than total quantity''"
  by (simp add: approveRequest_def request_approve_def findById_def save_def
        markReturned_def request_markReturned_def conditionEnum_def updateEquipment_def
        restockBody_def orKeep_def falsyStr_def ledgerInvariant_def increaseAvailable_def
        scenarioDb_def scenarioRequestA_def newRequest_def scenarioEquipment_def Let_def)

text \<open>
  What \<open>updateEquipment\<close> does check: an unknown id, and the resulting pair with
  \<open>available\<close> above \<open>quantity\<close>; both leave the database as it was.
\<close>

lemma updateEquipment_guards:
  "(equipments s i = None \<longrightarrow> updateEquipment s i body = (s, Inl (404, ''Equipment not found'')))
   \<and> (equipments s i = Some e
        \<and> (case b_newAvailable body of Some a \<Rightarrow> a | None \<Rightarrow> available e)
            > (case b_newQuantity body of Some q \<Rightarrow> q | None \<Rightarrow> quantity e) \<longrightarrow>
        updateEquipment s i body = (s, Inl (400, ''Available quantity cannot exceed total quantity'')))"
  by (simp add: updateEquipment_def Let_def)

text \<open>
  C5. An update whose resulting \<open>available\<close> is negative is not refused: it is written,
  although the schema's own validator on \<open>available\<close> rejects the resulting document.
\<close>

theorem updateEquipment_accepts_negative_available:
  "ledgerInvariant scenarioEquipment
   \<and> updateEquipment scenarioDb 20 negativeBody =
       (scenarioDb\<lparr>equipments := [20 \<mapsto> scenarioEquipment\<lparr>available := - 1\<rparr>]\<rparr>,
        Inr (scenarioEquipment\<lparr>available := - 1\<rparr>))
   \<and> \<not> ledgerInvariant (scenarioEquipment\<lparr>available := - 1\<rparr>)
   \<and> equipmentSchemaErrors (scenarioEquipment\<lparr>available := - 1\<rparr>) = [''Available quantity cannot be negative'']"
  by (simp add: updateEquipment_def negativeBody_def orKeep_def falsyStr_def ledgerInvariant_def
        equipmentSchemaErrors_def quantityError_def availableError_def scenarioDb_def
        scenarioEquipment_def Let_def)

subsection \<open>Overlap accounting\<close>

lemma foldl_plus_sum_list:
  "foldl (\<lambda>total r. total + f r) a rs = a + sum_list (map f rs)" for a :: int
  by (induction rs arbitrary: a) auto

lemma totalRequestedQuantity_overlapping:
  "totalRequestedQuantity (overlappingRequests rs eid fromDate toDate) = committed rs eid fromDate toDate"
proof -
  have "totalRequestedQuantity (overlappingRequests rs eid fromDate toDate)
        = sum_list (map reqQuantity (overlappingRequests rs eid fromDate toDate))"
    by (simp add: totalRequestedQuantity_def foldl_plus_sum_list)
  also have "\<dots> = committed rs eid fromDate toDate"
    unfolding overlappingRequests_def committed_def sum_list_map_filter'
    by (rule arg_cong [where f = sum_list], rule map_cong) auto
  finally show ?thesis .
qed

lemma requiredFields_Some:
  "requiredFields body = Some (sid, eid, fromDate, toDate, nt) \<Longrightarrow>
     b_studentId body = Some sid \<and> b_equipmentId body = Some eid
     \<and> b_borrowFromDate body = Some fromDate \<and> b_borrowToDate body = Some toDate
     \<and> b_notes body = Some nt \<and> nt \<noteq> [] \<and> \<not> falsyNum (b_quantity body)"
  unfolding requiredFields_def by (simp split: option.splits if_splits)

text \<open>
  C2. The capacity guard of \<open>createRequest\<close> passes exactly when the committed quantity
  plus the requested quantity is at most the item's total, and otherwise answers 400
  reporting the total minus the committed quantity; a creation that has passed the
  earlier steps fails with that response when the sum exceeds the total, and a creation
  that succeeds has the sum within the total.
\<close>

theorem overlap_accounting:
  "checkOverlap rs eid e fromDate toDate q =
     (if committed rs eid fromDate toDate + q \<le> quantity e then None
      else Some (400, ''Only '' @ showInt (quantity e - committed rs eid fromDate toDate)
                       @ '' units available for these dates''))
   \<and> (requiredFields body = Some (sid, eid, fromDate, toDate, nt)
        \<and> positiveInteger (b_quantity body) = Some q
        \<and> checkDates fromDate toDate today = None
        \<and> equipments s eid = Some e \<and> checkAvailable e q = None \<longrightarrow>
        (\<not> committed (requests s) eid fromDate toDate + q \<le> quantity e \<longrightarrow>
           createRequest s body today now newId =
             (s, Inl (400, ''Only '' @ showInt (quantity e - committed (requests s) eid fromDate toDate)
                             @ '' units available for these dates'')))
        \<and> ((\<exists>r. snd (createRequest s body today now newId) = Inr r) \<longrightarrow>
             committed (requests s) eid fromDate toDate + q \<le> quantity e))"
proof -
  have stage: "\<And>rs. checkOverlap rs eid e fromDate toDate q =
     (if committed rs eid fromDate toDate + q \<le> quantity e then None
      else Some (400, ''Only '' @ showInt (quantity e - committed rs eid fromDate toDate)
                       @ '' units available for these dates''))"
    by (simp add: checkOverlap_def totalRequestedQuantity_overlapping Let_def)
  have fail: "createRequest s body today now newId =
             (s, Inl (400, ''Only '' @ showInt (quantity e - committed (requests s) eid fromDate toDate)
                             @ '' units available for these dates''))"
    if "requiredFields body = Some (sid, eid, fromDate, toDate, nt)"
       "positiveInteger (b_quantity body) = Some q" "checkDates fromDate toDate today = None"
       "equipments s eid = Some e" "checkAvailable e q = None"
       "\<not> committed (requests s) eid fromDate toDate + q \<le> quantity e"
    using that by (simp add: createRequest_def stage)
  have succ: "committed (requests s) eid fromDate toDate + q \<le> quantity e"
    if "requiredFields body = Some (sid, eid, fromDate, toDate, nt)"
       "positiveInteger (b_quantity body) = Some q" "checkDates fromDate toDate today = None"
       "equipments s eid = Some e" "checkAvailable e q = None"
       "\<exists>r. snd (createRequest s body today now newId) = Inr r"
    using that fail by (cases "committed (requests s) eid fromDate toDate + q \<le> quantity e") auto
  show ?thesis using stage fail succ by blast
qed

theorem overlap_accounting_witness:
  "createRequest scenarioDb scenarioBodyB 100 105 11 =
     (scenarioDb, Inl (400, ''Only 2 units available for these dates''))
   \<and> committed (requests scenarioDb) 20 112 120 = 3
   \<and> (\<exists>r. snd (createRequest scenarioDb (scenarioBodyB\<lparr>b_quantity := IntNum 2\<rparr>) 100 105 11) = Inr r)"
proof -
  have c: "committed (requests scenarioDb) 20 112 120 = 3"
    by (simp add: committed_def scenarioDb_def scenarioRequestA_def newRequest_def)
  have rf: "requiredFields scenarioBodyB = Some (8, 20, 112, 120, ''Robotics club'')"
    by (simp add: requiredFields_def scenarioBodyB_def falsyNum_def)
  have pi: "positiveInteger (b_quantity scenarioBodyB) = Some 3"
    by (simp add: positiveInteger_def scenarioBodyB_def)
  have cd: "checkDates 112 120 100 = None" by (simp add: checkDates_def)
  have eq: "equipments scenarioDb 20 = Some scenarioEquipment" by (simp add: scenarioDb_def)
  have ca: "checkAvailable scenarioEquipment 3 = None"
    by (simp add: checkAvailable_def scenarioEquipment_def)
  have qe: "quantity scenarioEquipment = 5" by (simp add: scenarioEquipment_def)
  have sh: "showInt 2 = ''2''" by (simp add: showInt_def showNat.simps)
  have ok: "\<exists>r. snd (createRequest scenarioDb (scenarioBodyB\<lparr>b_quantity := IntNum 2\<rparr>) 100 105 11) = Inr r"
    by (simp add: createRequest_def requiredFields_def positiveInteger_def checkDates_def
          checkAvailable_def checkOverlap_def overlappingRequests_def totalRequestedQuantity_def
          requestSchemaErrors_def borrowToDate_validator_def falsyStr_def falsyNum_def
          scenarioBodyB_def scenarioDb_def scenarioRequestA_def newRequest_def
          scenarioEquipment_def Let_def)
  from overlap_accounting [of "requests scenarioDb" 20 scenarioEquipment 112 120 3 scenarioBodyB
        8 "''Robotics club''" 100 scenarioDb 105 11]
  have "createRequest scenarioDb scenarioBodyB 100 105 11 =
     (scenarioDb, Inl (400, ''Only 2 units available for these dates''))"
    using rf pi cd eq ca by (simp add: c qe sh)
  then show ?thesis using c ok by simp
qed

subsection \<open>Immediate availability\<close>

lemma positiveInteger_Some:
  "positiveInteger v = Some q \<Longrightarrow> v = IntNum q \<and> 1 \<le> q"
  unfolding positiveInteger_def by (simp split: jsnumber.splits if_splits)

lemma checkAvailable_None:
  "checkAvailable e q = None \<longleftrightarrow> 0 < available e \<and> q \<le> available e"
  unfolding checkAvailable_def by auto

lemma createRequest_Inr:
  assumes "snd (createRequest s body today now newId) = Inr r"
  shows "\<exists>sid eid fromDate toDate nt q e.
           requiredFields body = Some (sid, eid, fromDate, toDate, nt)
         \<and> positiveInteger (b_quantity body) = Some q
         \<and> checkDates fromDate toDate today = None
         \<and> equipments s eid = Some e
         \<and> checkAvailable e q = None
         \<and> checkOverlap (requests s) eid e fromDate toDate q = None
         \<and> equipmentId r = eid \<and> reqQuantity r = q
         \<and> borrowFromDate r = fromDate \<and> borrowToDate r = toDate \<and> status r = Pending"
  using assms unfolding createRequest_def
  by (auto simp: Let_def newRequest_def split: option.splits if_splits prod.splits)

text \<open>
  C6. A request is created only if the item's \<open>available\<close> is positive and at least the
  requested quantity; when it is not, and the earlier steps pass, the creation fails with
  400 whatever requests exist. A quantity equal to \<open>available\<close> (at least 1) passes the
  immediate check, and \<open>available + 1\<close> never does.
\<close>

theorem immediate_availability:
  "((\<exists>s'. createRequest s body today now newId = (s', Inr r)) \<longrightarrow>
      b_equipmentId body = Some (equipmentId r) \<and> b_quantity body = IntNum (reqQuantity r)
      \<and> (\<exists>e. equipments s (equipmentId r) = Some e \<and> 0 < available e \<and> reqQuantity r \<le> available e))
   \<and> (requiredFields body = Some (sid, eid, fromDate, toDate, nt)
        \<and> positiveInteger (b_quantity body) = Some q
        \<and> checkDates fromDate toDate today = None
        \<and> equipments s eid = Some e
        \<and> \<not> (0 < available e \<and> q \<le> available e) \<longrightarrow>
        createRequest s body today now newId =
          (s, Inl (400, if available e \<le> 0 then ''Equipment is not available for borrowing''
                        else ''Only '' @ showInt (available e) @ '' units available for borrowing'')))
   \<and> (1 \<le> q \<and> q = available e \<longrightarrow> checkAvailable e q = None)
   \<and> checkAvailable e (available e + 1) \<noteq> None"
proof -
  have a: "b_equipmentId body = Some (equipmentId r) \<and> b_quantity body = IntNum (reqQuantity r)
      \<and> (\<exists>e. equipments s (equipmentId r) = Some e \<and> 0 < available e \<and> reqQuantity r \<le> available e)"
    if "\<exists>s'. createRequest s body today now newId = (s', Inr r)"
  proof -
    from that have "snd (createRequest s body today now newId) = Inr r" by auto
    from createRequest_Inr [OF this] obtain sid eid fromDate toDate nt q e where
      h: "requiredFields body = Some (sid, eid, fromDate, toDate, nt)"
         "positiveInteger (b_quantity body) = Some q"
         "equipments s eid = Some e" "checkAvailable e q = None"
         "equipmentId r = eid" "reqQuantity r = q" by blast
    show ?thesis
      using h requiredFields_Some [OF h(1)] positiveInteger_Some [OF h(2)]
      by (auto simp: checkAvailable_None)
  qed
  have b: "createRequest s body today now newId =
          (s, Inl (400, if available e \<le> 0 then ''Equipment is not available for borrowing''
                        else ''Only '' @ showInt (available e) @ '' units available for borrowing''))"
    if "requiredFields body = Some (sid, eid, fromDate, toDate, nt)"
       "positiveInteger (b_quantity body) = Some q" "checkDates fromDate toDate today = None"
       "equipments s eid = Some e" "\<not> (0 < available e \<and> q \<le> available e)"
    using that by (auto simp: createRequest_def checkAvailable_def)
  have c: "1 \<le> q \<and> q = available e \<longrightarrow> checkAvailable e q = None"
    by (auto simp: checkAvailable_def)
  have d: "checkAvailable e (available e + 1) \<noteq> None"
    by (simp add: checkAvailable_def)
  show ?thesis using a b c d by blast
qed

theorem immediate_availability_witness:
  "(\<exists>r. snd (createRequest scenarioDb (scenarioBodyB\<lparr>b_quantity := IntNum 2\<rparr>) 100 105 11) = Inr r
       \<and> reqQuantity r = 2)
   \<and> createRequest scenarioDb (scenarioBodyB\<lparr>b_quantity := IntNum 6\<rparr>) 100 105 11 =
       (scenarioDb, Inl (400, ''Only 5 units available for borrowing''))
   \<and> checkAvailable scenarioEquipment 5 = None
   \<and> checkAvailable scenarioEquipment 6 \<noteq> None"
proof -
  have sh: "showInt 5 = ''5''" by (simp add: showInt_def showNat.simps)
  have av: "available scenarioEquipment = 5" by (simp add: scenarioEquipment_def)
  have rf: "requiredFields (scenarioBodyB\<lparr>b_quantity := IntNum 6\<rparr>) = Some (8, 20, 112, 120, ''Robotics club'')"
    by (simp add: requiredFields_def scenarioBodyB_def falsyNum_def)
  have pi: "positiveInteger (b_quantity (scenarioBodyB\<lparr>b_quantity := IntNum 6\<rparr>)) = Some 6"
    by (simp add: positiveInteger_def)
  have cd: "checkDates 112 120 100 = None" by (simp add: checkDates_def)
  have eq: "equipments scenarioDb 20 = Some scenarioEquipment" by (simp add: scenarioDb_def)
  have ok: "\<exists>r. snd (createRequest scenarioDb (scenarioBodyB\<lparr>b_quantity := IntNum 2\<rparr>) 100 105 11) = Inr r
       \<and> reqQuantity r = 2"
    by (simp add: createRequest_def requiredFields_def positiveInteger_def checkDates_def
          checkAvailable_def checkOverlap_def overlappingRequests_def totalRequestedQuantity_def
          requestSchemaErrors_def borrowToDate_validator_def falsyStr_def falsyNum_def
          scenarioBodyB_def scenarioDb_def scenarioRequestA_def newRequest_def
          scenarioEquipment_def Let_def)
  note t = immediate_availability [of scenarioDb "scenarioBodyB\<lparr>b_quantity := IntNum 6\<rparr>" 100 105 11
        scenarioRequestA 8 20 112 120 "''Robotics club''" 6 scenarioEquipment]
  have two: "createRequest scenarioDb (scenarioBodyB\<lparr>b_quantity := IntNum 6\<rparr>) 100 105 11 =
       (scenarioDb, Inl (400, ''Only 5 units available for borrowing''))"
    using t rf pi cd eq by (simp add: av sh)
  have three: "checkAvailable scenarioEquipment 5 = None"
    using immediate_availability [of scenarioDb scenarioBodyB 100 105 11 scenarioRequestA 8 20 112 120
        "''Robotics club''" 5 scenarioEquipment] by (simp add: av)
  have four: "checkAvailable scenarioEquipment 6 \<noteq> None"
    using t by (simp add: av)
  show ?thesis using ok two three four by blast
qed

subsection \<open>Date validation\<close>

text \<open>
  C7. A creation whose return date equals its borrow date, or whose borrow date is before
  today, answers 400 and leaves the database as it was: no request is inserted. When
  the required fields and the quantity are in order the message is the one of the date
  check; and the schema's validator on \<open>borrowToDate\<close> refuses equal dates as well.
\<close>

theorem bad_dates_rejected:
  assumes "b_borrowFromDate body = Some f"
      and "b_borrowToDate body = Some f \<or> f < today"
  shows "fst (createRequest s body today now newId) = s
       \<and> (\<exists>m. snd (createRequest s body today now newId) = Inl (400, m))
       \<and> (requiredFields body \<noteq> None \<and> positiveInteger (b_quantity body) \<noteq> None \<longrightarrow>
            snd (createRequest s body today now newId) =
              Inl (400, if f < today then ''Borrow date cannot be in the past''
                        else ''Return date must be after borrow date''))
       \<and> \<not> borrowToDate_validator f f"
proof -
  have v: "\<not> borrowToDate_validator f f" by (simp add: borrowToDate_validator_def)
  show ?thesis
  proof (cases "requiredFields body")
    case None
    then show ?thesis using v by (simp add: createRequest_def)
  next
    case (Some t)
    obtain sid eid fromDate toDate nt where t: "t = (sid, eid, fromDate, toDate, nt)"
      by (cases t) auto
    have rf: "requiredFields body = Some (sid, eid, fromDate, toDate, nt)" using Some t by simp
    from requiredFields_Some [OF rf] assms
    have fd: "fromDate = f" and td: "toDate = f \<or> f < today" by auto
    have cd: "checkDates fromDate toDate today =
        Some (400, if f < today then ''Borrow date cannot be in the past''
                   else ''Return date must be after borrow date'')"
      using fd td by (auto simp: checkDates_def)
    show ?thesis
    proof (cases "positiveInteger (b_quantity body)")
      case None
      then show ?thesis using v rf by (simp add: createRequest_def)
    next
      case (Some q)
      then show ?thesis using v rf cd by (simp add: createRequest_def)
    qed
  qed
qed

theorem bad_dates_rejected_witness:
  "createRequest scenarioDb (scenarioBodyB\<lparr>b_borrowToDate := Some 112\<rparr>) 100 105 11 =
     (scenarioDb, Inl (400, ''Return date must be after borrow date''))
   \<and> createRequest scenarioDb (scenarioBodyB\<lparr>b_borrowFromDate := Some 90\<rparr>) 100 105 11 =
     (scenarioDb, Inl (400, ''Borrow date cannot be in the past''))"
proof -
  have rf1: "requiredFields (scenarioBodyB\<lparr>b_borrowToDate := Some 112\<rparr>) \<noteq> None"
    and rf2: "requiredFields (scenarioBodyB\<lparr>b_borrowFromDate := Some 90\<rparr>) \<noteq> None"
    by (simp_all add: requiredFields_def scenarioBodyB_def falsyNum_def)
  have pi1: "positiveInteger (b_quantity (scenarioBodyB\<lparr>b_borrowToDate := Some 112\<rparr>)) \<noteq> None"
    and pi2: "positiveInteger (b_quantity (scenarioBodyB\<lparr>b_borrowFromDate := Some 90\<rparr>)) \<noteq> None"
    by (simp_all add: positiveInteger_def scenarioBodyB_def)
  have a1: "b_borrowFromDate (scenarioBodyB\<lparr>b_borrowToDate := Some 112\<rparr>) = Some 112"
    and a2: "b_borrowToDate (scenarioBodyB\<lparr>b_borrowToDate := Some 112\<rparr>) = Some 112 \<or> (112::int) < 100"
    by (simp_all add: scenarioBodyB_def)
  have b1: "b_borrowFromDate (scenarioBodyB\<lparr>b_borrowFromDate := Some 90\<rparr>) = Some 90"
    and b2: "b_borrowToDate (scenarioBodyB\<lparr>b_borrowFromDate := Some 90\<rparr>) = Some 90 \<or> (90::int) < 100"
    by simp_all
  from bad_dates_rejected [OF a1 a2, of scenarioDb 105 11] rf1 pi1
  have one: "createRequest scenarioDb (scenarioBodyB\<lparr>b_borrowToDate := Some 112\<rparr>) 100 105 11 =
     (scenarioDb, Inl (400, ''Return date must be after borrow date''))"
    by (simp add: prod_eq_iff)
  from bad_dates_rejected [OF b1 b2, of scenarioDb 105 11] rf2 pi2
  have two: "createRequest scenarioDb (scenarioBodyB\<lparr>b_borrowFromDate := Some 90\<rparr>) 100 105 11 =
     (scenarioDb, Inl (400, ''Borrow date cannot be in the past''))"
    by (simp add: prod_eq_iff)
  show ?thesis using one two by simp
qed

end
